theory Spec2Isabelle
  imports Complex_Main "HOL-Library.Product_Lexorder"
begin

section \<open>The retrier of the mail provider\<close>

text \<open>
  Source: \<^verbatim>\<open>infrastructure/providers/default/email.py\<close>, function \<^verbatim>\<open>_retry\<close>.

  The operation handed to the retrier (\<^verbatim>\<open>coro_factory\<close>) is an effectful call: it takes
  the state it acts on and returns either the exception it raised (\<open>Inl\<close>) or its value
  (\<open>Inr\<close>), together with the new state. The world of the retrier holds that state, the
  number of times \<^verbatim>\<open>coro_factory()\<close> has been awaited and the durations handed to
  \<^verbatim>\<open>asyncio.sleep\<close>, in order.
\<close>

record 's retry_world =
  op_state :: 's
  calls :: nat
  slept :: "real list"

text \<open>
  What a call of the retrier can raise: the exception of the operation, the
  \<^verbatim>\<open>TypeError\<close> of Python's \<^verbatim>\<open>raise None\<close>, or the \<^verbatim>\<open>ValueError\<close> of
  \<^verbatim>\<open>range\<close> and of \<^verbatim>\<open>asyncio.Semaphore\<close> (raised by the bulk sender below).
\<close>

datatype 'e raised = OperationError 'e | TypeError | ValueError

text \<open>
  \<^verbatim>\<open>min(max_delay, base_delay * (2 ** i)) * (0.5 + random.random())\<close>, with \<open>r\<close> the
  value drawn from \<^verbatim>\<open>random.random()\<close>. The loop index is never negative.
\<close>

definition sleep_for :: "real \<Rightarrow> real \<Rightarrow> int \<Rightarrow> real \<Rightarrow> real" where
  "sleep_for max_delay base_delay i r = min max_delay (base_delay * 2 ^ nat i) * (0.5 + r)"

text \<open>\<^verbatim>\<open>raise last_exc\<close>: raising \<^verbatim>\<open>None\<close> is a \<^verbatim>\<open>TypeError\<close>.\<close>

definition raise_last :: "'e option \<Rightarrow> 'e raised" where
  "raise_last last_exc = (case last_exc of None \<Rightarrow> TypeError | Some exc \<Rightarrow> OperationError exc)"

text \<open>
  The body of \<^verbatim>\<open>for i in range(attempts)\<close> from index \<open>i\<close> on, followed by the final
  \<^verbatim>\<open>raise last_exc\<close>. \<open>random k\<close> is the value of the \<open>k\<close>-th call of
  \<^verbatim>\<open>random.random()\<close>; the retrier draws once before each sleep and nothing else draws,
  so the next draw has the index \<open>length (slept w)\<close>.
\<close>

function retry_loop ::
  "('s \<Rightarrow> ('e + 'a) \<times> 's) \<Rightarrow> int \<Rightarrow> real \<Rightarrow> real \<Rightarrow> (nat \<Rightarrow> real) \<Rightarrow>
   int \<Rightarrow> 'e option \<Rightarrow> 's retry_world \<Rightarrow> ('e raised + 'a) \<times> 's retry_world" where
  "retry_loop coro_factory attempts base_delay max_delay random i last_exc w =
     (if i < attempts then
        (let res = coro_factory (op_state w);
             w1 = w\<lparr>op_state := snd res, calls := calls w + 1\<rparr>
         in case fst res of
              Inr v \<Rightarrow> (Inr v, w1)
            | Inl exc \<Rightarrow>
                if i = attempts - 1 then (Inl (raise_last (Some exc)), w1)
                else retry_loop coro_factory attempts base_delay max_delay random (i + 1) (Some exc)
                       (w1\<lparr>slept := slept w1 @
                              [sleep_for max_delay base_delay i (random (length (slept w1)))]\<rparr>))
      else (Inl (raise_last last_exc), w))"
  by pat_completeness auto
termination
  by (relation "measure (\<lambda>(f, attempts, b, m, r, i, e, w). nat (attempts - i))") auto

declare retry_loop.simps [simp del]

definition retry ::
  "('s \<Rightarrow> ('e + 'a) \<times> 's) \<Rightarrow> int \<Rightarrow> real \<Rightarrow> real \<Rightarrow> (nat \<Rightarrow> real) \<Rightarrow>
   's retry_world \<Rightarrow> ('e raised + 'a) \<times> 's retry_world" where
  "retry coro_factory attempts base_delay max_delay random w =
     retry_loop coro_factory attempts base_delay max_delay random 0 None w"

text \<open>
  Vocabulary for stating what the retrier did: the state after \<open>k\<close> calls of the
  operation, the outcome of call number \<open>k\<close> (counted from 0), and the delays of
  \<open>m\<close> consecutive sleeps starting at loop index \<open>i\<close> and draw number \<open>d\<close>.
\<close>

fun run_calls :: "('s \<Rightarrow> ('e + 'a) \<times> 's) \<Rightarrow> nat \<Rightarrow> 's \<Rightarrow> 's" where
  "run_calls f 0 s = s"
| "run_calls f (Suc k) s = run_calls f k (snd (f s))"

definition outcome :: "('s \<Rightarrow> ('e + 'a) \<times> 's) \<Rightarrow> 's \<Rightarrow> nat \<Rightarrow> 'e + 'a" where
  "outcome f s k = fst (f (run_calls f k s))"

definition sleeps :: "real \<Rightarrow> real \<Rightarrow> (nat \<Rightarrow> real) \<Rightarrow> int \<Rightarrow> nat \<Rightarrow> nat \<Rightarrow> real list" where
  "sleeps max_delay base_delay random i d m =
     map (\<lambda>j. sleep_for max_delay base_delay (i + int j) (random (d + j))) [0..<m]"

text \<open>Operations and a random source for concrete runs.\<close>

definition always_fails :: "unit \<Rightarrow> (string + unit) \<times> unit" where
  "always_fails s = (Inl ''smtp down'', s)"


definition three_quarters :: "nat \<Rightarrow> real" where
  "three_quarters k = 3 / 4"

section \<open>The transport and the bulk sender\<close>

text \<open>
  Source: \<^verbatim>\<open>email.py\<close>, \<^verbatim>\<open>_send_one\<close>, \<^verbatim>\<open>send_email\<close> and
  \<^verbatim>\<open>send_email_to_many\<close>. The SMTP client (\<^verbatim>\<open>_fm.send_message\<close>) is external: it is a
  parameter \<open>transport\<close> acting on a state of its own. The mail world logs every message
  handed to it as (subject, body, recipients).
\<close>

record 't mail_world =
  smtp :: 't
  sent :: "(string \<times> string \<times> string list) list"

type_synonym ('e, 't) transport = "string \<Rightarrow> string \<Rightarrow> string list \<Rightarrow> 't \<Rightarrow> ('e + unit) \<times> 't"

definition send_one ::
  "('e, 't) transport \<Rightarrow> string \<Rightarrow> string \<Rightarrow> string list \<Rightarrow> 't mail_world \<Rightarrow>
   ('e + unit) \<times> 't mail_world" where
  "send_one transport subject body recipients mw =
     (let res = transport subject body recipients (smtp mw)
      in (fst res, \<lparr>smtp = snd res, sent = sent mw @ [(subject, body, recipients)]\<rparr>))"

text \<open>
  \<^verbatim>\<open>str.strip()\<close> removes leading and trailing whitespace. Addresses are taken to be
  ASCII, where Python's whitespace is the code points 9 to 13 and 28 to 32.
\<close>

definition isspace :: "char \<Rightarrow> bool" where
  "isspace c = (let n = (of_char c :: nat) in (9 \<le> n \<and> n \<le> 13) \<or> (28 \<le> n \<and> n \<le> 32))"

definition strip :: "string \<Rightarrow> string" where
  "strip s = rev (dropWhile isspace (rev (dropWhile isspace s)))"

text \<open>\<^verbatim>\<open>[str(r).strip() for r in recipients if str(r).strip()]\<close>\<close>

definition recips :: "string list \<Rightarrow> string list" where
  "recips recipients = map strip (filter (\<lambda>r. strip r \<noteq> []) recipients)"

text \<open>
  \<^verbatim>\<open>range(0, stop, step)\<close> for a positive step, by iteration, and
  \<^verbatim>\<open>[recips[i : i + batch_size] for i in range(0, len(recips), batch_size)]\<close>:
  a zero step is a \<^verbatim>\<open>ValueError\<close>, a negative step gives the empty range.
\<close>

function range_from :: "nat \<Rightarrow> nat \<Rightarrow> nat \<Rightarrow> nat list" where
  "range_from i stop step =
     (if step = 0 \<or> stop \<le> i then [] else i # range_from (i + step) stop step)"
  by pat_completeness auto
termination
  by (relation "measure (\<lambda>(i, stop, step). stop - i)") auto

declare range_from.simps [simp del]

definition batches :: "'a list \<Rightarrow> int \<Rightarrow> 'e raised + 'a list list" where
  "batches rs batch_size =
     (if batch_size = 0 then Inl ValueError
      else if batch_size < 0 then Inr []
      else Inr (map (\<lambda>i. take (nat batch_size) (drop i rs))
                  (range_from 0 (length rs) (nat batch_size))))"

text \<open>
  \<^verbatim>\<open>asyncio.gather\<close> of effectful computations. The computations are run one after the
  other in list order (one of the schedules the event loop may choose); a computation that
  raises does not cancel the others, and the first exception in list order is the one
  raised to the awaiter.
\<close>

fun gather :: "('w \<Rightarrow> 'r \<times> 'w) list \<Rightarrow> 'w \<Rightarrow> 'r list \<times> 'w" where
  "gather [] w = ([], w)"
| "gather (c # cs) w =
     (let r1 = c w; r2 = gather cs (snd r1) in (fst r1 # fst r2, snd r2))"

fun raise_first :: "('x + 'a) list \<Rightarrow> 'x + 'a list" where
  "raise_first [] = Inr []"
| "raise_first (Inl e # rs) = Inl e"
| "raise_first (Inr v # rs) = (case raise_first rs of Inl e \<Rightarrow> Inl e | Inr vs \<Rightarrow> Inr (v # vs))"

text \<open>\<^verbatim>\<open>send_email\<close> awaited (\<^verbatim>\<open>background_tasks=None\<close>), as the worker calls it.\<close>

definition send_email ::
  "('e, 't) transport \<Rightarrow> (nat \<Rightarrow> real) \<Rightarrow> string \<Rightarrow> string \<Rightarrow> string \<Rightarrow> int \<Rightarrow>
   't mail_world retry_world \<Rightarrow> ('e raised + unit) \<times> 't mail_world retry_world" where
  "send_email transport random email subject body max_attempts w =
     retry (send_one transport subject body [email]) max_attempts 0.5 4.0 random w"

text \<open>
  \<^verbatim>\<open>send_email_to_many\<close> awaited (\<^verbatim>\<open>background_tasks=None\<close>, the way the notification
  service calls it). \<open>None\<close> means that the call never returns: with
  \<^verbatim>\<open>asyncio.Semaphore(0)\<close> every chunk waits for the semaphore forever.
\<close>

definition send_batch ::
  "('e, 't) transport \<Rightarrow> (nat \<Rightarrow> real) \<Rightarrow> string \<Rightarrow> string \<Rightarrow> int \<Rightarrow> string list \<Rightarrow>
   't mail_world retry_world \<Rightarrow> ('e raised + unit) \<times> 't mail_world retry_world" where
  "send_batch transport random subject body max_attempts batch w =
     retry (send_one transport subject body batch) max_attempts 0.5 4.0 random w"

definition send_email_to_many ::
  "('e, 't) transport \<Rightarrow> (nat \<Rightarrow> real) \<Rightarrow> string list \<Rightarrow> string \<Rightarrow> string \<Rightarrow> int \<Rightarrow> int \<Rightarrow> int \<Rightarrow>
   't mail_world retry_world \<Rightarrow> (('e raised + unit) \<times> 't mail_world retry_world) option" where
  "send_email_to_many transport random recipients subject body batch_size concurrency max_attempts w =
     (if recips recipients = [] then Some (Inr (), w)
      else case batches (recips recipients) batch_size of
             Inl err \<Rightarrow> Some (Inl err, w)
           | Inr bs \<Rightarrow>
               if concurrency < 0 then Some (Inl ValueError, w)
               else if bs = [] then Some (Inr (), w)
               else if concurrency = 0 then None
               else (let res = gather (map (send_batch transport random subject body max_attempts) bs) w
                     in Some (case raise_first (fst res) of Inl err \<Rightarrow> Inl err | Inr vs \<Rightarrow> Inr (),
                              snd res)))"

section \<open>The job model and the store\<close>

text \<open>
  Source: \<^verbatim>\<open>domain/enums/notification_status.py\<close>, \<^verbatim>\<open>domain/entities/notification.py\<close>
  and \<^verbatim>\<open>root_model.py\<close>. Identifiers are opaque (UUIDs), times are points on a line.
  The table is the list of its rows, in the order in which the store yields them.
\<close>

type_synonym ident = nat
type_synonym datetime = int

datatype notification_status =
  PENDING | QUEUED | PROCESSING | SENT | PARTIAL | FAILED | RETRYING | CANCELLED | SCHEDULED

record notification =
  notif_id :: ident
  created_at :: datetime
  subject :: string
  message :: string
  recipients :: "string list"
  status :: notification_status
  priority :: int
  scheduled_at :: "datetime option"
  sent_at :: "datetime option"
  attempt_count :: int
  last_attempt_at :: "datetime option"
  last_error :: "string option"
  payload :: "(string \<times> string) list"

section \<open>The worker\<close>

text \<open>
  Source: \<^verbatim>\<open>application/workers/notification_sender.py\<close>.

  The claim query of \<^verbatim>\<open>main_loop\<close>: the rows with status \<^verbatim>\<open>PENDING\<close> and
  \<^verbatim>\<open>scheduled_at <= now\<close> (a comparison with \<^verbatim>\<open>NULL\<close> selects nothing), ordered by
  \<^verbatim>\<open>priority.desc(), created_at.asc()\<close>, cut at the limit, rows locked by another
  worker being skipped. The limit is a parameter here; the worker passes
  \<^verbatim>\<open>BATCH_SIZE\<close>.
\<close>

definition BATCH_SIZE :: nat where
  "BATCH_SIZE = 50"

definition is_due :: "datetime \<Rightarrow> notification \<Rightarrow> bool" where
  "is_due now n =
     (status n = PENDING \<and> (case scheduled_at n of None \<Rightarrow> False | Some t \<Rightarrow> t \<le> now))"

definition order_key :: "notification \<Rightarrow> int \<times> int" where
  "order_key n = (- priority n, created_at n)"

definition selected :: "nat \<Rightarrow> datetime \<Rightarrow> ident set \<Rightarrow> notification list \<Rightarrow> notification list" where
  "selected limit now locked table =
     take limit (sort_key order_key (filter (\<lambda>n. is_due now n \<and> notif_id n \<notin> locked) table))"

definition subquery :: "nat \<Rightarrow> datetime \<Rightarrow> ident set \<Rightarrow> notification list \<Rightarrow> ident list" where
  "subquery limit now locked table = map notif_id (selected limit now locked table)"

text \<open>
  \<^verbatim>\<open>select(Notification).where(Notification.id.in_(select(subquery)))\<close>: the rows of the
  table whose identifier the claim query returned. This statement has no ordering of its
  own, so the rows come in the order of the table.
\<close>

definition batch_to_process :: "nat \<Rightarrow> datetime \<Rightarrow> ident set \<Rightarrow> notification list \<Rightarrow> notification list" where
  "batch_to_process limit now locked table =
     filter (\<lambda>n. notif_id n \<in> set (subquery limit now locked table)) table"

text \<open>The rows of the batch are marked \<^verbatim>\<open>PROCESSING\<close> and committed.\<close>

definition mark_processing :: "ident list \<Rightarrow> notification list \<Rightarrow> notification list" where
  "mark_processing ids table =
     map (\<lambda>n. if notif_id n \<in> set ids then n\<lparr>status := PROCESSING\<rparr> else n) table"

text \<open>
  \<^verbatim>\<open>process_batch\<close>. The inner \<^verbatim>\<open>_send_one\<close> sends one mail per recipient and turns
  an exception into a failure result carrying its text (\<open>str_exc\<close> is Python's
  \<^verbatim>\<open>str\<close> on exceptions).
\<close>

definition worker_send_one ::
  "('e, 't) transport \<Rightarrow> (nat \<Rightarrow> real) \<Rightarrow> ('e raised \<Rightarrow> string) \<Rightarrow> notification \<Rightarrow>
   't mail_world retry_world \<Rightarrow> (notification \<times> bool \<times> string option) \<times> 't mail_world retry_world" where
  "worker_send_one transport random str_exc n w =
     (let res = gather (map (\<lambda>r. send_email transport random r (subject n) (message n) 3)
                          (recipients n)) w
      in (case raise_first (fst res) of
            Inr vs \<Rightarrow> (n, True, None)
          | Inl exc \<Rightarrow> (n, False, Some (str_exc exc)),
          snd res))"

text \<open>The body of the loop over the results.\<close>

definition record_result :: "datetime \<Rightarrow> notification \<times> bool \<times> string option \<Rightarrow> notification" where
  "record_result now r =
     (let n = (fst r)\<lparr>last_attempt_at := Some now, attempt_count := attempt_count (fst r) + 1\<rparr>
      in if fst (snd r) then n\<lparr>status := SENT, sent_at := Some now, last_error := None\<rparr>
         else n\<lparr>status := FAILED, last_error := snd (snd r)\<rparr>)"

definition process_batch ::
  "('e, 't) transport \<Rightarrow> (nat \<Rightarrow> real) \<Rightarrow> ('e raised \<Rightarrow> string) \<Rightarrow> datetime \<Rightarrow> notification list \<Rightarrow>
   't mail_world retry_world \<Rightarrow> notification list \<times> 't mail_world retry_world" where
  "process_batch transport random str_exc now batch w =
     (let res = gather (map (worker_send_one transport random str_exc) batch) w
      in (map (record_result now) (fst res), snd res))"



definition show_exc :: "string raised \<Rightarrow> string" where
  "show_exc e = (case e of OperationError m \<Rightarrow> m | TypeError \<Rightarrow> ''TypeError'' | ValueError \<Rightarrow> ''ValueError'')"


definition job :: "ident \<Rightarrow> int \<Rightarrow> datetime \<Rightarrow> notification" where
  "job i p t = \<lparr>notif_id = i, created_at = t, subject = ''hello'', message = ''body'',
     recipients = [''a@example.org''], status = PENDING, priority = p, scheduled_at = Some 0,
     sent_at = None, attempt_count = 0, last_attempt_at = None, last_error = None, payload = []\<rparr>"

section \<open>The notification service\<close>

text \<open>
  Source: \<^verbatim>\<open>application/v1/notifications/service.py\<close> and \<^verbatim>\<open>schema.py\<close>.

  The request object as the service reads it: \<^verbatim>\<open>recipients\<close>, \<^verbatim>\<open>priority\<close>,
  \<^verbatim>\<open>scheduled_at\<close> and \<^verbatim>\<open>payload\<close> may be absent (\<^verbatim>\<open>None\<close>).
\<close>

record create_notification_schema =
  schema_subject :: string
  schema_recipients :: "string list option"
  schema_message :: string
  schema_priority :: "int option"
  schema_scheduled_at :: "datetime option"
  schema_payload :: "(string \<times> string) list option"

datatype app_error = AppBadRequestException string

text \<open>
  \<^verbatim>\<open>insert(Notification).values(...).returning(...)\<close>. The store supplies the identifier
  and the creation time and enforces the check constraints declared on the entity; a
  violation is an \<^verbatim>\<open>IntegrityError\<close>, whose text is represented by the name of the
  constraint.
\<close>

datatype db_error = IntegrityError string

definition check_constraints :: "notification \<Rightarrow> db_error option" where
  "check_constraints n =
     (if \<not> (- 10 \<le> priority n \<and> priority n \<le> 100) then
        Some (IntegrityError ''ck_notifications_priority_range'')
      else if \<not> 0 \<le> attempt_count n then
        Some (IntegrityError ''ck_notifications_attempt_count_nonneg'')
      else None)"

definition vals :: "create_notification_schema \<Rightarrow> string list \<Rightarrow> ident \<Rightarrow> datetime \<Rightarrow> notification" where
  "vals data rs new_id now =
     \<lparr>notif_id = new_id, created_at = now,
      subject = schema_subject data, message = schema_message data, recipients = rs,
      status = PENDING,
      priority = (case schema_priority data of None \<Rightarrow> 0 | Some p \<Rightarrow> p),
      scheduled_at = schema_scheduled_at data,
      sent_at = None, attempt_count = 0, last_attempt_at = None, last_error = None,
      payload = (case schema_payload data of None \<Rightarrow> [] | Some d \<Rightarrow> d)\<rparr>"

text \<open>
  The state the intake path acts on: the table and the identifier lists handed to
  \<^verbatim>\<open>process_notifications_async\<close> as background tasks.
\<close>

record service_state =
  table :: "notification list"
  background :: "ident list list"

text \<open>
  \<^verbatim>\<open>NotificationService.queue_notification\<close>; \<open>new_id\<close> and \<open>now\<close> are the
  server-generated identifier and creation time of the row.
\<close>

definition queue_notification ::
  "create_notification_schema \<Rightarrow> ident \<Rightarrow> datetime \<Rightarrow> service_state \<Rightarrow>
   (app_error + notification) \<times> service_state" where
  "queue_notification data new_id now st =
     (let rs = recips (case schema_recipients data of None \<Rightarrow> [] | Some l \<Rightarrow> l)
      in if rs = [] then (Inl (AppBadRequestException ''At least one recipient is required.''), st)
         else (let n = vals data rs new_id now
               in case check_constraints n of
                    Some (IntegrityError e) \<Rightarrow>
                      (Inl (AppBadRequestException (''Could not queue notification: '' @ e)), st)
                  | None \<Rightarrow>
                      (Inr n, \<lparr>table = table st @ [n],
                               background = background st @ [[notif_id n]]\<rparr>)))"

subsection \<open>The background runner and the result aggregator\<close>

text \<open>
  A bulk \<^verbatim>\<open>update(Notification).where(Notification.id.in_(ids)).values(...)\<close> statement.
  Both statements of the source assign \<^verbatim>\<open>status\<close>, \<^verbatim>\<open>last_attempt_at\<close>,
  \<^verbatim>\<open>last_error\<close> and \<^verbatim>\<open>attempt_count = attempt_count + 1\<close>; only the first assigns
  \<^verbatim>\<open>sent_at\<close> (\<open>None\<close> in \<open>set_sent_at\<close>: the column is not assigned).
\<close>

record bulk_update =
  where_ids :: "ident list"
  set_status :: notification_status
  set_sent_at :: "datetime option"
  set_last_attempt_at :: datetime
  set_last_error :: "string option"

definition update_row :: "bulk_update \<Rightarrow> notification \<Rightarrow> notification" where
  "update_row u n =
     (if notif_id n \<in> set (where_ids u) then
        n\<lparr>status := set_status u,
          sent_at := (case set_sent_at u of None \<Rightarrow> sent_at n | Some t \<Rightarrow> Some t),
          last_attempt_at := Some (set_last_attempt_at u),
          attempt_count := attempt_count n + 1,
          last_error := set_last_error u\<rparr>
      else n)"

definition execute :: "bulk_update \<Rightarrow> notification list \<Rightarrow> notification list" where
  "execute u tbl = map (update_row u) tbl"

fun execute_all :: "bulk_update list \<Rightarrow> notification list \<Rightarrow> notification list" where
  "execute_all [] tbl = tbl"
| "execute_all (u # us) tbl = execute_all us (execute u tbl)"

definition success_ids :: "(ident \<times> bool) list \<Rightarrow> ident list" where
  "success_ids results = map fst (filter (\<lambda>r. snd r) results)"

definition failure_ids :: "(ident \<times> bool) list \<Rightarrow> ident list" where
  "failure_ids results = map fst (filter (\<lambda>r. \<not> snd r) results)"

text \<open>The statements the aggregator issues, in order.\<close>

definition bulk_writes :: "(ident \<times> bool) list \<Rightarrow> datetime \<Rightarrow> bulk_update list" where
  "bulk_writes results now =
     (if success_ids results \<noteq> [] then
        [\<lparr>where_ids = success_ids results, set_status = SENT, set_sent_at = Some now,
          set_last_attempt_at = now, set_last_error = None\<rparr>]
      else []) @
     (if failure_ids results \<noteq> [] then
        [\<lparr>where_ids = failure_ids results, set_status = FAILED, set_sent_at = None,
          set_last_attempt_at = now,
          set_last_error = Some ''One or more recipient sends failed''\<rparr>]
      else [])"

definition apply_results :: "(ident \<times> bool) list \<Rightarrow> datetime \<Rightarrow> notification list \<Rightarrow> notification list" where
  "apply_results results now tbl = execute_all (bulk_writes results now) tbl"

text \<open>
  The inner \<^verbatim>\<open>_send_one\<close> of \<^verbatim>\<open>process_notifications_async\<close> and the gathering of its
  results over the fetched items, then the whole runner.
\<close>

definition service_send_one ::
  "('e, 't) transport \<Rightarrow> (nat \<Rightarrow> real) \<Rightarrow> notification \<Rightarrow> 't mail_world retry_world \<Rightarrow>
   ((ident \<times> bool) \<times> 't mail_world retry_world) option" where
  "service_send_one transport random n w =
     (case send_email_to_many transport random (recipients n) (subject n) (message n) 50 5 3 w of
        None \<Rightarrow> None
      | Some res \<Rightarrow>
          Some (case fst res of Inr u \<Rightarrow> (notif_id n, True) | Inl exc \<Rightarrow> (notif_id n, False),
                snd res))"

fun dispatch ::
  "('e, 't) transport \<Rightarrow> (nat \<Rightarrow> real) \<Rightarrow> notification list \<Rightarrow> 't mail_world retry_world \<Rightarrow>
   ((ident \<times> bool) list \<times> 't mail_world retry_world) option" where
  "dispatch transport random [] w = Some ([], w)"
| "dispatch transport random (n # ns) w =
     (case service_send_one transport random n w of
        None \<Rightarrow> None
      | Some r1 \<Rightarrow>
          (case dispatch transport random ns (snd r1) of
             None \<Rightarrow> None
           | Some r2 \<Rightarrow> Some (fst r1 # fst r2, snd r2)))"

definition process_notifications_async ::
  "('e, 't) transport \<Rightarrow> (nat \<Rightarrow> real) \<Rightarrow> datetime \<Rightarrow> ident list \<Rightarrow> notification list \<Rightarrow>
   't mail_world retry_world \<Rightarrow> (notification list \<times> 't mail_world retry_world) option" where
  "process_notifications_async transport random now notification_ids tbl w =
     (if notification_ids = [] then Some (tbl, w)
      else (let items = filter (\<lambda>n. notif_id n \<in> set notification_ids) tbl
            in if items = [] then Some (tbl, w)
               else (case dispatch transport random items w of
                       None \<Rightarrow> None
                     | Some res \<Rightarrow> Some (apply_results (fst res) now tbl, snd res))))"

section \<open>Properties of the retrier\<close>

lemma sleeps_0: "sleeps md bd r i d 0 = []" by (simp add: sleeps_def)

lemma sleeps_Suc_front:
  "sleeps md bd r i d (Suc m) = sleep_for md bd i (r d) # sleeps md bd r (i + 1) (Suc d) m"
proof -
  have "[0..<Suc m] = 0 # map Suc [0..<m]"
    by (simp add: upt_conv_Cons map_Suc_upt del: upt_Suc)
  then show ?thesis
    by (simp add: sleeps_def comp_def ac_simps del: upt_Suc)
qed

lemma length_sleeps: "length (sleeps md bd r i d m) = m" by (simp add: sleeps_def)

lemma nth_sleeps: "j < m \<Longrightarrow> sleeps md bd r i d m ! j = sleep_for md bd (i + int j) (r (d + j))"
  by (simp add: sleeps_def)

lemma retry_loop_success:
  "(\<forall>j<k. isl (outcome f (op_state w) j)) \<Longrightarrow> outcome f (op_state w) k = Inr v \<Longrightarrow>
   i + int k < attempts \<Longrightarrow>
   retry_loop f attempts bd md r i lexc w =
     (Inr v, \<lparr>op_state = run_calls f (Suc k) (op_state w), calls = calls w + Suc k,
              slept = slept w @ sleeps md bd r i (length (slept w)) k\<rparr>)"
proof (induction k arbitrary: i lexc w)
  case 0
  then show ?case
    by (subst retry_loop.simps) (simp add: outcome_def sleeps_0 Let_def)
next
  case (Suc k)
  from Suc.prems(1) have "isl (outcome f (op_state w) 0)" by blast
  then obtain e where e: "fst (f (op_state w)) = Inl e"
    by (auto simp: outcome_def isl_def)
  let ?w = "w\<lparr>op_state := snd (f (op_state w)), calls := calls w + 1,
     slept := slept w @ [sleep_for md bd i (r (length (slept w)))]\<rparr>"
  have a: "\<forall>j<k. isl (outcome f (op_state ?w) j)"
    using Suc.prems(1) by (auto simp: outcome_def)
  have b: "outcome f (op_state ?w) k = Inr v"
    using Suc.prems(2) by (simp add: outcome_def)
  have c: "(i + 1) + int k < attempts" using Suc.prems(3) by simp
  have "retry_loop f attempts bd md r i lexc w = retry_loop f attempts bd md r (i + 1) (Some e) ?w"
    using Suc.prems(3) e by (subst retry_loop.simps) (simp add: Let_def)
  also have "\<dots> = (Inr v, \<lparr>op_state = run_calls f (Suc k) (op_state ?w), calls = calls ?w + Suc k,
              slept = slept ?w @ sleeps md bd r (i + 1) (length (slept ?w)) k\<rparr>)"
    by (rule Suc.IH [OF a b c])
  finally show ?case by (simp add: sleeps_Suc_front)
qed

lemma retry_loop_exhaust:
  "(\<forall>j\<le>k. isl (outcome f (op_state w) j)) \<Longrightarrow> i + int k = attempts - 1 \<Longrightarrow>
   retry_loop f attempts bd md r i lexc w =
     (Inl (OperationError (projl (outcome f (op_state w) k))),
      \<lparr>op_state = run_calls f (Suc k) (op_state w), calls = calls w + Suc k,
       slept = slept w @ sleeps md bd r i (length (slept w)) k\<rparr>)"
proof (induction k arbitrary: i lexc w)
  case 0
  then obtain e where e: "fst (f (op_state w)) = Inl e"
    by (auto simp: outcome_def isl_def)
  with 0 show ?case
    by (subst retry_loop.simps) (simp add: outcome_def sleeps_0 Let_def raise_last_def)
next
  case (Suc k)
  from Suc.prems(1) have "isl (outcome f (op_state w) 0)" by blast
  then obtain e where e: "fst (f (op_state w)) = Inl e"
    by (auto simp: outcome_def isl_def)
  let ?w = "w\<lparr>op_state := snd (f (op_state w)), calls := calls w + 1,
     slept := slept w @ [sleep_for md bd i (r (length (slept w)))]\<rparr>"
  have a: "\<forall>j\<le>k. isl (outcome f (op_state ?w) j)"
  proof (intro allI impI)
    fix j assume "j \<le> k"
    then have "Suc j \<le> Suc k" by simp
    with Suc.prems(1) have "isl (outcome f (op_state w) (Suc j))" by blast
    then show "isl (outcome f (op_state ?w) j)" by (simp add: outcome_def)
  qed
  have c: "(i + 1) + int k = attempts - 1" using Suc.prems(2) by simp
  have "retry_loop f attempts bd md r i lexc w = retry_loop f attempts bd md r (i + 1) (Some e) ?w"
    using Suc.prems(2) e by (subst retry_loop.simps) (simp add: Let_def)
  also have "\<dots> = (Inl (OperationError (projl (outcome f (op_state ?w) k))),
      \<lparr>op_state = run_calls f (Suc k) (op_state ?w), calls = calls ?w + Suc k,
       slept = slept ?w @ sleeps md bd r (i + 1) (length (slept ?w)) k\<rparr>)"
    by (rule Suc.IH [OF a c])
  finally show ?case by (simp add: sleeps_Suc_front outcome_def)
qed

lemma retry_loop_none:
  "attempts \<le> i \<Longrightarrow> retry_loop f attempts bd md r i lexc w = (Inl (raise_last lexc), w)"
  by (subst retry_loop.simps) simp

text \<open>Every run of the retrier with at least one attempt is one of the two shapes.\<close>

lemma retry_shape:
  assumes "1 \<le> attempts"
  shows "\<exists>k < nat attempts.
           snd (retry f attempts bd md r w) =
             \<lparr>op_state = run_calls f (Suc k) (op_state w), calls = calls w + Suc k,
              slept = slept w @ sleeps md bd r 0 (length (slept w)) k\<rparr>"
proof (cases "\<exists>k < nat attempts. \<not> isl (outcome f (op_state w) k)")
  case True
  define k where "k = (LEAST k. \<not> isl (outcome f (op_state w) k))"
  from True obtain k0 where k0: "k0 < nat attempts" "\<not> isl (outcome f (op_state w) k0)" by blast
  have nk: "\<not> isl (outcome f (op_state w) k)"
    unfolding k_def using k0(2) by (rule LeastI)
  have kle: "k \<le> k0" unfolding k_def using k0(2) by (rule Least_le)
  have before: "\<forall>j<k. isl (outcome f (op_state w) j)"
    unfolding k_def using not_less_Least by blast
  from nk obtain v where v: "outcome f (op_state w) k = Inr v"
    by (cases "outcome f (op_state w) k") auto
  have "0 + int k < attempts" using kle k0(1) by simp
  from retry_loop_success [OF before v this]
  have "snd (retry f attempts bd md r w) =
     \<lparr>op_state = run_calls f (Suc k) (op_state w), calls = calls w + Suc k,
      slept = slept w @ sleeps md bd r 0 (length (slept w)) k\<rparr>"
    by (simp add: retry_def)
  moreover have "k < nat attempts" using kle k0(1) by simp
  ultimately show ?thesis by blast
next
  case False
  define k where "k = nat attempts - 1"
  have all: "\<forall>j\<le>k. isl (outcome f (op_state w) j)"
    using False assms by (auto simp: k_def)
  have "0 + int k = attempts - 1" using assms by (simp add: k_def)
  from retry_loop_exhaust [OF all this]
  have "snd (retry f attempts bd md r w) =
     \<lparr>op_state = run_calls f (Suc k) (op_state w), calls = calls w + Suc k,
      slept = slept w @ sleeps md bd r 0 (length (slept w)) k\<rparr>"
    by (simp add: retry_def)
  moreover have "k < nat attempts" using assms by (simp add: k_def)
  ultimately show ?thesis by blast
qed



text \<open>
  C10: with \<open>attempts \<le> 0\<close> the loop body never runs: the operation is not called,
  nothing is slept, and the final \<^verbatim>\<open>raise last_exc\<close> raises the \<^verbatim>\<open>TypeError\<close> of
  raising \<^verbatim>\<open>None\<close>, which is not an error of the operation.
\<close>

theorem retry_nonpositive_attempts:
  "attempts \<le> 0 \<Longrightarrow> retry f attempts bd md r w = (Inl TypeError, w)"
  by (simp add: retry_def retry_loop_none raise_last_def)

theorem retry_nonpositive_attempts_witness:
  "(0::int) \<le> 0 \<and> retry always_fails 0 (1/2) 4 three_quarters \<lparr>op_state = (), calls = 0, slept = []\<rparr>
     = (Inl TypeError, \<lparr>op_state = (), calls = 0, slept = []\<rparr>)"
  using retry_nonpositive_attempts [where attempts = 0 and f = always_fails and bd = "1/2" and md = 4 and r = three_quarters and w = "\<lparr>op_state = (), calls = 0, slept = []\<rparr>"]
  by simp

lemma sleep_for_upper:
  assumes "0 \<le> r" "r < 1" "0 \<le> md"
  shows "sleep_for md bd i r \<le> 3 / 2 * md"
proof -
  define m where "m = min md (bd * 2 ^ nat i)"
  have le: "m \<le> md" by (simp add: m_def)
  have f: "0 < 1 / 2 + r" "1 / 2 + r \<le> 3 / 2" using assms by simp_all
  have "m * (1 / 2 + r) \<le> 3 / 2 * md"
  proof (cases "0 \<le> m")
    case True
    then have "m * (1 / 2 + r) \<le> m * (3 / 2)" using f by (intro mult_left_mono) simp_all
    also have "\<dots> \<le> md * (3 / 2)" using le by (intro mult_right_mono) simp_all
    finally show ?thesis by (simp add: mult.commute)
  next
    case False
    then have "m * (1 / 2 + r) \<le> 0" using f by (simp add: mult_le_0_iff)
    also have "0 \<le> 3 / 2 * md" using assms by simp
    finally show ?thesis .
  qed
  then show ?thesis by (simp add: sleep_for_def m_def)
qed

text \<open>
  C5, as the code has it: when the retrier makes \<open>m + 1\<close> calls it sleeps \<open>m\<close> times,
  once before each retry, and the delay before retry \<open>i\<close> (counted from 0) is
  \<open>min max_delay (base_delay * 2 ^ i)\<close> times the factor \<open>1/2 + r\<close>, where \<open>r\<close> is the
  value drawn from the random source. For \<open>r\<close> in \<open>[0, 1)\<close> the factor lies in
  \<open>[1/2, 3/2)\<close>, and for a non-negative \<open>max_delay\<close> the delay is at most
  \<open>3/2 * max_delay\<close>.
\<close>

theorem retry_delay_is_capped_backoff_times_jitter:
  assumes "1 \<le> attempts" and "\<forall>k. 0 \<le> random k \<and> random k < 1" and "0 \<le> max_delay"
  shows "\<exists>m < nat attempts.
           calls (snd (retry f attempts base_delay max_delay random w)) = calls w + Suc m
         \<and> length (slept (snd (retry f attempts base_delay max_delay random w))) = length (slept w) + m
         \<and> (\<forall>i<m. slept (snd (retry f attempts base_delay max_delay random w)) ! (length (slept w) + i)
                     = min max_delay (base_delay * 2 ^ i) * (1 / 2 + random (length (slept w) + i))
                 \<and> 1 / 2 \<le> 1 / 2 + random (length (slept w) + i)
                 \<and> 1 / 2 + random (length (slept w) + i) < 3 / 2
                 \<and> slept (snd (retry f attempts base_delay max_delay random w)) ! (length (slept w) + i)
                     \<le> 3 / 2 * max_delay)"
proof -
  let ?w' = "snd (retry f attempts base_delay max_delay random w)"
  from retry_shape [OF assms(1), of f base_delay max_delay random w]
  obtain m where m: "m < nat attempts"
    and w': "?w' = \<lparr>op_state = run_calls f (Suc m) (op_state w), calls = calls w + Suc m,
        slept = slept w @ sleeps max_delay base_delay random 0 (length (slept w)) m\<rparr>" by blast
  have "\<forall>i<m. slept ?w' ! (length (slept w) + i)
                     = min max_delay (base_delay * 2 ^ i) * (1 / 2 + random (length (slept w) + i))
                 \<and> 1 / 2 \<le> 1 / 2 + random (length (slept w) + i)
                 \<and> 1 / 2 + random (length (slept w) + i) < 3 / 2
                 \<and> slept ?w' ! (length (slept w) + i) \<le> 3 / 2 * max_delay"
  proof (intro allI impI)
    fix i assume i: "i < m"
    have nth: "slept ?w' ! (length (slept w) + i) =
        sleep_for max_delay base_delay (int i) (random (length (slept w) + i))"
      using i by (simp add: w' nth_append nth_sleeps)
    have r: "0 \<le> random (length (slept w) + i)" "random (length (slept w) + i) < 1"
      using assms(2) by simp_all
    show "slept ?w' ! (length (slept w) + i)
                     = min max_delay (base_delay * 2 ^ i) * (1 / 2 + random (length (slept w) + i))
                 \<and> 1 / 2 \<le> 1 / 2 + random (length (slept w) + i)
                 \<and> 1 / 2 + random (length (slept w) + i) < 3 / 2
                 \<and> slept ?w' ! (length (slept w) + i) \<le> 3 / 2 * max_delay"
      unfolding nth using r sleep_for_upper [OF r assms(3), of base_delay "int i"]
      by (simp add: sleep_for_def)
  qed
  moreover have "calls ?w' = calls w + Suc m" by (simp add: w')
  moreover have "length (slept ?w') = length (slept w) + m" by (simp add: w' length_sleeps)
  ultimately show ?thesis using m by blast
qed

lemma always_fails_exhaust:
  "0 < n \<Longrightarrow> snd (retry always_fails (int n) bd md r \<lparr>op_state = (), calls = 0, slept = []\<rparr>) =
     \<lparr>op_state = (), calls = n, slept = sleeps md bd r 0 0 (n - 1)\<rparr>"
proof -
  assume n: "0 < n"
  have all: "\<forall>j\<le>n - 1. isl (outcome always_fails (op_state \<lparr>op_state = (), calls = 0, slept = []\<rparr>) j)"
    by (simp add: outcome_def always_fails_def)
  have "0 + int (n - 1) = int n - 1" using n by simp
  from retry_loop_exhaust [OF all this, of bd md r None] n
  show ?thesis by (simp add: retry_def)
qed

text \<open>
  C5 as claimed fails: with 5 attempts, the default delays (0.5 and 4.0) and the random
  source returning 0.75, the sleep before retry 3 lasts \<open>min 4 (0.5 * 8) * 1.25 = 5\<close>,
  more than \<open>max_delay\<close>; the factor 1.25 is outside \<open>[0.5, 1.0)\<close>.
\<close>

theorem retry_delay_exceeds_max_delay:
  "slept (snd (retry always_fails 5 (1 / 2) 4 three_quarters \<lparr>op_state = (), calls = 0, slept = []\<rparr>)) ! 3
     = min 4 (1 / 2 * 2 ^ 3) * (5 / 4)
   \<and> \<not> slept (snd (retry always_fails 5 (1 / 2) 4 three_quarters \<lparr>op_state = (), calls = 0, slept = []\<rparr>)) ! 3
         \<le> 4
   \<and> \<not> (5 / 4 :: real) < 1"
proof -
  have "snd (retry always_fails (int 5) (1 / 2) 4 three_quarters \<lparr>op_state = (), calls = 0, slept = []\<rparr>) =
     \<lparr>op_state = (), calls = 5, slept = sleeps 4 (1 / 2) three_quarters 0 0 (5 - 1)\<rparr>"
    by (rule always_fails_exhaust) simp
  then have "slept (snd (retry always_fails 5 (1 / 2) 4 three_quarters \<lparr>op_state = (), calls = 0, slept = []\<rparr>)) ! 3
     = sleep_for 4 (1 / 2) 3 (3 / 4)"
    by (simp add: nth_sleeps three_quarters_def)
  then show ?thesis by (simp add: sleep_for_def)
qed

theorem retry_delay_is_capped_backoff_times_jitter_witness:
  "(1::int) \<le> 3 \<and> (\<forall>k. 0 \<le> three_quarters k \<and> three_quarters k < 1) \<and> (0::real) \<le> 4
   \<and> slept (snd (retry always_fails 3 (1 / 2) 4 three_quarters \<lparr>op_state = (), calls = 0, slept = []\<rparr>)) ! 1
       = 5 / 4"
proof -
  let ?w' = "snd (retry always_fails 3 (1 / 2) 4 three_quarters \<lparr>op_state = (), calls = 0, slept = []\<rparr>)"
  have h1: "(1::int) \<le> 3" by simp
  have h2: "\<forall>k. 0 \<le> three_quarters k \<and> three_quarters k < 1" by (simp add: three_quarters_def)
  have h3: "(0::real) \<le> 4" by simp
  have c: "calls ?w' = 3" using always_fails_exhaust [of 3 "1 / 2" 4 three_quarters] by simp
  from retry_delay_is_capped_backoff_times_jitter [OF h1 h2 h3, of always_fails "1 / 2" "\<lparr>op_state = (), calls = 0, slept = []\<rparr>"]
  obtain m where "calls ?w' = Suc m"
    and "\<forall>i<m. slept ?w' ! i = min 4 (1 / 2 * 2 ^ i) * (1 / 2 + three_quarters i)"
    by auto
  with c have "slept ?w' ! 1 = min 4 (1 / 2 * 2 ^ 1) * (1 / 2 + three_quarters 1)" by simp
  then have "slept ?w' ! 1 = 5 / 4" by (simp add: three_quarters_def)
  with h1 h2 h3 show ?thesis by blast
qed

section \<open>Properties of the bulk sender\<close>








end
